theory Spec2Isabelle
  imports Complex_Main "HOL-Library.Word"
begin

unbundle bit_operations_syntax

section \<open>Data model of \<^verbatim>\<open>src/App.tsx\<close>\<close>

text \<open>
  The component \<^verbatim>\<open>App\<close> keeps its session in React state (\<^verbatim>\<open>useState\<close>) and in
  mutable refs (\<^verbatim>\<open>useRef\<close>). The model is one record holding both, updated by one
  function per handler of the source. Handlers run one at a time, in arrival order.

  A JavaScript string is a sequence of UTF-16 code units.
\<close>

type_synonym js_string = "16 word list"

text \<open>
  \<^verbatim>\<open>String.prototype.trim\<close> removes the leading and trailing code units that are
  WhiteSpace or LineTerminator in ECMAScript: TAB, LF, VT, FF, CR, SP, NBSP, U+1680,
  U+2000 to U+200A, U+2028, U+2029, U+202F, U+205F, U+3000 and U+FEFF.
\<close>

definition is_js_whitespace :: "16 word \<Rightarrow> bool" where
  "is_js_whitespace c =
     (c = 0x09 \<or> c = 0x0A \<or> c = 0x0B \<or> c = 0x0C \<or> c = 0x0D \<or> c = 0x20 \<or> c = 0xA0 \<or>
      c = 0x1680 \<or> (0x2000 \<le> c \<and> c \<le> 0x200A) \<or> c = 0x2028 \<or> c = 0x2029 \<or>
      c = 0x202F \<or> c = 0x205F \<or> c = 0x3000 \<or> c = 0xFEFF)"

definition trim :: "js_string \<Rightarrow> js_string" where
  "trim s = rev (dropWhile is_js_whitespace (rev (dropWhile is_js_whitespace s)))"

text \<open>
  String literals of the source are written through \<open>utf16\<close> (ASCII characters are
  their own code units). \<open>undefined_str\<close> is what \<^verbatim>\<open>+=\<close> appends for the value
  \<^verbatim>\<open>undefined\<close>.
\<close>

definition utf16 :: "string \<Rightarrow> js_string" where
  "utf16 cs = map of_char cs"

definition undefined_str :: js_string where
  "undefined_str = utf16 ''undefined''"

text \<open>\<^verbatim>\<open>type ConnectionState = 'disconnected' | 'connecting' | 'connected'\<close>\<close>

datatype ConnectionState = disconnected | connecting | connected

text \<open>\<^verbatim>\<open>enum PersonaMode\<close> and \<^verbatim>\<open>interface AudioMessage\<close> of the types module.\<close>

datatype PersonaMode = GIRLFRIEND | INTERVIEWER

datatype Role = user | model

record AudioMessage =
  role :: Role
  message_text :: "js_string option"

text \<open>
  The parts of a \<^verbatim>\<open>LiveServerMessage\<close> that \<^verbatim>\<open>onmessage\<close> reads. Every link of the
  chain \<^verbatim>\<open>message.serverContent?.modelTurn?.parts[0]?.inlineData?.data\<close> is optional
  in the SDK's types, and so is the \<^verbatim>\<open>text\<close> of a transcription.
\<close>

record Transcription =
  transcription_text :: "js_string option"

record Blob_data =
  data :: "js_string option"

record Part =
  inlineData :: "Blob_data option"

record Content =
  parts :: "Part list option"

record LiveServerContent =
  outputTranscription :: "Transcription option"
  inputTranscription :: "Transcription option"
  turnComplete :: bool
  modelTurn :: "Content option"
  interrupted :: bool

record LiveServerMessage =
  serverContent :: "LiveServerContent option"

text \<open>
  A Web Audio \<^verbatim>\<open>AudioBuffer\<close>: its \<^verbatim>\<open>duration\<close> is \<^verbatim>\<open>length / sampleRate\<close>, in seconds.
  Times are JavaScript numbers, taken here as reals.
\<close>

record AudioBuffer =
  buffer_length :: nat
  sampleRate :: nat

definition duration :: "AudioBuffer \<Rightarrow> real" where
  "duration b = real (buffer_length b) / real (sampleRate b)"

text \<open>
  An \<^verbatim>\<open>AudioBufferSourceNode\<close>. Two nodes are the same object when their
  \<open>node_id\<close> agree; \<^verbatim>\<open>createBufferSource\<close> returns a node with a fresh one.
\<close>

record AudioBufferSourceNode =
  node_id :: nat
  buffer :: AudioBuffer

text \<open>What the audio output is told to do: \<^verbatim>\<open>source.start(when)\<close> and \<^verbatim>\<open>source.stop()\<close>.\<close>

datatype audio_effect = Start AudioBufferSourceNode real | Stop AudioBufferSourceNode

datatype AudioContext = AudioContext nat

text \<open>How the promise returned by \<^verbatim>\<open>ai.live.connect\<close> settles.\<close>

datatype session_promise = Fulfilled | Rejected

text \<open>
  The state of the component.
  \<^item> \<open>isMicMuted\<close> to \<open>error\<close>: the \<^verbatim>\<open>useState\<close> values of the latest render.
  \<^item> \<open>audioContextRef\<close> to \<open>streamRef\<close>: the \<^verbatim>\<open>useRef\<close> cells. \<open>sourcesRef\<close> is a
    JavaScript \<^verbatim>\<open>Set\<close>, which iterates in insertion order: a list.
  \<^item> \<open>callbacks_isMicMuted\<close>: the callbacks passed to \<^verbatim>\<open>ai.live.connect\<close> are closures
    created inside \<^verbatim>\<open>connect\<close>; the \<^verbatim>\<open>isMicMuted\<close> they mention is the constant of the
    render whose \<^verbatim>\<open>connect\<close> was called.
  \<^item> \<open>scriptProcessor\<close>: the script processor created by \<^verbatim>\<open>onopen\<close>, given by the
    value of \<^verbatim>\<open>isMicMuted\<close> that the closure of its \<^verbatim>\<open>onaudioprocess\<close> handler holds;
    \<open>None\<close> before.
  \<^item> \<open>created\<close>: how many source nodes were created so far (the next fresh id).
  \<^item> \<open>playback\<close>: the calls made on source nodes, oldest first.
  \<^item> \<open>sent\<close>: the capture buffers \<open>b\<close> for which
    \<^verbatim>\<open>session.sendRealtimeInput({ media: createPCM16Blob(b) })\<close> was called, oldest first.
\<close>

record app =
  mode :: "PersonaMode option"
  connectionState :: ConnectionState
  isMicMuted :: bool
  messages :: "AudioMessage list"
  streamingUserText :: js_string
  streamingModelText :: js_string
  error :: "js_string option"
  audioContextRef :: "AudioContext option"
  inputContextRef :: "AudioContext option"
  sessionPromiseRef :: "session_promise option"
  nextStartTimeRef :: real
  sourcesRef :: "AudioBufferSourceNode list"
  currentInputTranscriptionRef :: js_string
  currentOutputTranscriptionRef :: js_string
  streamRef :: "unit option"
  callbacks_isMicMuted :: bool
  scriptProcessor :: "bool option"
  created :: nat
  playback :: "audio_effect list"
  sent :: "real list list"

text \<open>
  An \<^verbatim>\<open>async\<close> function either runs to its end or stops at a throw (its promise
  rejects); the mutations made before the throw stay.
\<close>

datatype 'a completion = Returned 'a | Threw 'a

fun after :: "'a completion \<Rightarrow> 'a" where
  "after (Returned s) = s"
| "after (Threw s) = s"

section \<open>The handlers\<close>

subsection \<open>\<^verbatim>\<open>onmessage\<close>, lines 195 to 263\<close>

text \<open>\<^verbatim>\<open>s += text\<close> where \<^verbatim>\<open>text\<close> may be \<^verbatim>\<open>undefined\<close>.\<close>

definition append_text :: "js_string \<Rightarrow> js_string option \<Rightarrow> js_string" where
  "append_text s t = s @ (case t of None \<Rightarrow> undefined_str | Some x \<Rightarrow> x)"

text \<open>Lines 196 to 205, \<^verbatim>\<open>// Handle Transcription\<close>: an \<^verbatim>\<open>if\<close> / \<^verbatim>\<open>else if\<close>.\<close>

definition handleTranscription :: "LiveServerMessage \<Rightarrow> app \<Rightarrow> app" where
  "handleTranscription m s =
     (case serverContent m of
        None \<Rightarrow> s
      | Some sc \<Rightarrow>
          (case outputTranscription sc of
             Some tr \<Rightarrow>
               (let cur = append_text (currentOutputTranscriptionRef s) (transcription_text tr)
                in s\<lparr>currentOutputTranscriptionRef := cur, streamingModelText := cur\<rparr>)
           | None \<Rightarrow>
               (case inputTranscription sc of
                  Some tr \<Rightarrow>
                    (let cur = append_text (currentInputTranscriptionRef s) (transcription_text tr)
                     in s\<lparr>currentInputTranscriptionRef := cur, streamingUserText := cur\<rparr>)
                | None \<Rightarrow> s)))"

text \<open>Lines 207 to 225: the \<^verbatim>\<open>turnComplete\<close> branch.\<close>

definition newMessages :: "js_string \<Rightarrow> js_string \<Rightarrow> AudioMessage list \<Rightarrow> AudioMessage list" where
  "newMessages userText modelText prev =
     prev
     @ (if trim userText \<noteq> [] then [\<lparr>role = user, message_text = Some userText\<rparr>] else [])
     @ (if trim modelText \<noteq> [] then [\<lparr>role = model, message_text = Some modelText\<rparr>] else [])"

definition handleTurnComplete :: "LiveServerMessage \<Rightarrow> app \<Rightarrow> app" where
  "handleTurnComplete m s =
     (case serverContent m of
        None \<Rightarrow> s
      | Some sc \<Rightarrow>
          if turnComplete sc then
            (let userText = currentInputTranscriptionRef s;
                 modelText = currentOutputTranscriptionRef s;
                 s1 = s\<lparr>streamingUserText := [], streamingModelText := [],
                        currentInputTranscriptionRef := [],
                        currentOutputTranscriptionRef := []\<rparr>
             in if trim userText \<noteq> [] \<or> trim modelText \<noteq> []
                then s1\<lparr>messages := newMessages userText modelText (messages s1)\<rparr>
                else s1)
          else s)"

text \<open>
  Line 228: \<^verbatim>\<open>message.serverContent?.modelTurn?.parts[0]?.inlineData?.data\<close>. There is
  no \<^verbatim>\<open>?.\<close> between \<^verbatim>\<open>parts\<close> and \<^verbatim>\<open>[0]\<close>: a model turn without \<^verbatim>\<open>parts\<close> throws a
  TypeError, the outer \<open>None\<close>. Otherwise the value is the string or \<^verbatim>\<open>undefined\<close>.
\<close>

definition base64Audio :: "LiveServerMessage \<Rightarrow> js_string option option" where
  "base64Audio m =
     (case serverContent m of
        None \<Rightarrow> Some None
      | Some sc \<Rightarrow>
          (case modelTurn sc of
             None \<Rightarrow> Some None
           | Some mt \<Rightarrow>
               (case parts mt of
                  None \<Rightarrow> None
                | Some [] \<Rightarrow> Some None
                | Some (p # _) \<Rightarrow>
                    (case inlineData p of
                       None \<Rightarrow> Some None
                     | Some b \<Rightarrow> Some (data b)))))"

text \<open>
  Lines 254 to 262, \<^verbatim>\<open>// Handle Interruption\<close>: every source in the set is stopped,
  the set is cleared, the clock is set to 0 and the model-side text is reset.
\<close>

definition handleInterruption :: "LiveServerMessage \<Rightarrow> app \<Rightarrow> app" where
  "handleInterruption m s =
     (case serverContent m of
        None \<Rightarrow> s
      | Some sc \<Rightarrow>
          if interrupted sc then
            s\<lparr>playback := playback s @ map Stop (sourcesRef s),
              sourcesRef := [],
              nextStartTimeRef := 0,
              currentOutputTranscriptionRef := [],
              streamingModelText := []\<rparr>
          else s)"

text \<open>
  Lines 227 to 251, \<^verbatim>\<open>// Handle Audio Output\<close>, followed by the interruption block.
  \<open>dec\<close> stands for \<^verbatim>\<open>decodeAudioData(decode(base64Audio), audioCtx, 24000, 1)\<close> of
  \<^verbatim>\<open>services/audioUtils\<close>, whose source is not part of the development: \<open>None\<close> when
  it throws. \<open>now\<close> is \<^verbatim>\<open>audioCtx.currentTime\<close> when the message is handled.
  A string is truthy when it is not empty. With audio data and no audio context the
  handler returns at line 231, before the interruption block.
\<close>

definition handleAudio ::
  "(js_string \<Rightarrow> AudioBuffer option) \<Rightarrow> real \<Rightarrow> LiveServerMessage \<Rightarrow> app \<Rightarrow> app completion" where
  "handleAudio dec now m s =
     (case base64Audio m of
        None \<Rightarrow> Threw s
      | Some None \<Rightarrow> Returned (handleInterruption m s)
      | Some (Some b64) \<Rightarrow>
          if b64 = [] then Returned (handleInterruption m s)
          else
            (case audioContextRef s of
               None \<Rightarrow> Returned s
             | Some audioCtx \<Rightarrow>
                 (let s1 = s\<lparr>nextStartTimeRef := max (nextStartTimeRef s) now\<rparr>
                  in case dec b64 of
                       None \<Rightarrow> Threw s1
                     | Some audioBuffer \<Rightarrow>
                         (let source = \<lparr>node_id = created s1, buffer = audioBuffer\<rparr>;
                              s2 = s1\<lparr>created := Suc (created s1),
                                      playback := playback s1 @ [Start source (nextStartTimeRef s1)]\<rparr>;
                              s3 = s2\<lparr>nextStartTimeRef := nextStartTimeRef s2 + duration audioBuffer\<rparr>;
                              s4 = s3\<lparr>sourcesRef := sourcesRef s3 @ [source]\<rparr>
                          in Returned (handleInterruption m s4)))))"

definition onmessage ::
  "(js_string \<Rightarrow> AudioBuffer option) \<Rightarrow> real \<Rightarrow> LiveServerMessage \<Rightarrow> app \<Rightarrow> app completion" where
  "onmessage dec now m s = handleAudio dec now m (handleTurnComplete m (handleTranscription m s))"

text \<open>Line 250: \<^verbatim>\<open>source.onended = () => sourcesRef.current.delete(source)\<close>.\<close>

definition onended :: "nat \<Rightarrow> app \<Rightarrow> app" where
  "onended i s = s\<lparr>sourcesRef := filter (\<lambda>n. node_id n \<noteq> i) (sourcesRef s)\<rparr>"

subsection \<open>\<^verbatim>\<open>disconnect\<close>, lines 88 to 119, and the callbacks that call it\<close>

text \<open>
  \<^verbatim>\<open>await sessionPromiseRef.current\<close> throws when the promise is rejected, and the rest
  of the function does not run. When the promise is fulfilled the function goes on
  within the same task.
\<close>

definition disconnect :: "app \<Rightarrow> app completion" where
  "disconnect s =
     (let s1 = (case streamRef s of Some _ \<Rightarrow> s\<lparr>streamRef := None\<rparr> | None \<Rightarrow> s)
      in case sessionPromiseRef s1 of
           Some Rejected \<Rightarrow> Threw s1
         | _ \<Rightarrow>
             (let s2 = s1\<lparr>sessionPromiseRef := None\<rparr>;
                  s3 = s2\<lparr>audioContextRef := None\<rparr>;
                  s4 = s3\<lparr>inputContextRef := None\<rparr>;
                  s5 = s4\<lparr>playback := playback s4 @ map Stop (sourcesRef s4)\<rparr>;
                  s6 = s5\<lparr>sourcesRef := []\<rparr>
              in Returned
                   (s6\<lparr>connectionState := disconnected,
                       currentInputTranscriptionRef := [],
                       currentOutputTranscriptionRef := [],
                       streamingUserText := [],
                       streamingModelText := []\<rparr>)))"

definition onclose :: "app \<Rightarrow> app completion" where
  "onclose s = disconnect s"

definition onerror :: "app \<Rightarrow> app completion" where
  "onerror s = disconnect (s\<lparr>error := Some (utf16 ''Connection error. Please try again.'')\<rparr>)"

subsection \<open>\<^verbatim>\<open>connect\<close>, lines 132 to 283, \<^verbatim>\<open>onopen\<close> and the capture handler\<close>

text \<open>
  \<open>gum\<close> is the outcome of \<^verbatim>\<open>navigator.mediaDevices.getUserMedia\<close>: \<open>None\<close> when it
  resolves, \<open>Some msg\<close> when it rejects with an error of message \<open>msg\<close> (the
  constructors before it are taken to succeed). \<open>p\<close> is how the promise of
  \<^verbatim>\<open>ai.live.connect\<close> settles; the promise is stored without being awaited. The
  callbacks are created here: they hold this render's \<^verbatim>\<open>isMicMuted\<close>.
\<close>

definition connect :: "js_string option \<Rightarrow> session_promise \<Rightarrow> app \<Rightarrow> app" where
  "connect gum p s =
     (if mode s = None then s
      else
        (let s1 = s\<lparr>error := None, connectionState := connecting\<rparr>;
             s2 = s1\<lparr>audioContextRef := Some (AudioContext 24000)\<rparr>;
             s3 = s2\<lparr>inputContextRef := Some (AudioContext 16000)\<rparr>
         in case gum of
              Some msg \<Rightarrow>
                s3\<lparr>error := Some (if msg = [] then utf16 ''Failed to connect'' else msg),
                   connectionState := disconnected\<rparr>
            | None \<Rightarrow>
                s3\<lparr>streamRef := Some (),
                   callbacks_isMicMuted := isMicMuted s,
                   sessionPromiseRef := Some p\<rparr>))"

definition onopen :: "app \<Rightarrow> app" where
  "onopen s = s\<lparr>connectionState := connected, scriptProcessor := Some (callbacks_isMicMuted s)\<rparr>"

text \<open>
  Lines 181 to 190: the handler of one capture buffer. \<^verbatim>\<open>isMicMuted\<close> is read from
  the handler's closure. \<^verbatim>\<open>sessionPromiseRef.current?.then(...)\<close> sends only when the
  ref holds a promise that is fulfilled.
\<close>

definition onaudioprocess :: "real list \<Rightarrow> app \<Rightarrow> app" where
  "onaudioprocess inputData s =
     (case scriptProcessor s of
        None \<Rightarrow> s
      | Some closure_isMicMuted \<Rightarrow>
          if closure_isMicMuted then s
          else
            (case sessionPromiseRef s of
               Some Fulfilled \<Rightarrow> s\<lparr>sent := sent s @ [inputData]\<rparr>
             | _ \<Rightarrow> s))"

text \<open>Line 285: \<^verbatim>\<open>const toggleMute = () => setIsMicMuted(!isMicMuted)\<close>.\<close>

definition toggleMute :: "app \<Rightarrow> app" where
  "toggleMute s = s\<lparr>isMicMuted := \<not> isMicMuted s\<rparr>"

text \<open>The component as mounted: lines 16 to 33.\<close>

definition initial :: app where
  "initial =
     \<lparr>mode = None, connectionState = disconnected, isMicMuted = False, messages = [],
      streamingUserText = [], streamingModelText = [], error = None,
      audioContextRef = None, inputContextRef = None, sessionPromiseRef = None,
      nextStartTimeRef = 0, sourcesRef = [], currentInputTranscriptionRef = [],
      currentOutputTranscriptionRef = [], streamRef = None, callbacks_isMicMuted = False,
      scriptProcessor = None, created = 0, playback = [], sent = []\<rparr>"

section \<open>Events and runs\<close>

text \<open>
  The messages that carry exactly one of the things \<^verbatim>\<open>onmessage\<close> looks for: a
  transcription fragment of one speaker, the turn-complete flag, the interrupted flag,
  or one part of inline audio data.
\<close>

definition noContent :: LiveServerContent where
  "noContent =
     \<lparr>outputTranscription = None, inputTranscription = None, turnComplete = False,
      modelTurn = None, interrupted = False\<rparr>"

definition transcriptFragment :: "Role \<Rightarrow> js_string \<Rightarrow> LiveServerMessage" where
  "transcriptFragment speaker txt =
     \<lparr>serverContent = Some
        (case speaker of
           user \<Rightarrow> noContent\<lparr>inputTranscription := Some \<lparr>transcription_text = Some txt\<rparr>\<rparr>
         | model \<Rightarrow> noContent\<lparr>outputTranscription := Some \<lparr>transcription_text = Some txt\<rparr>\<rparr>)\<rparr>"

definition turnCompleteEvent :: LiveServerMessage where
  "turnCompleteEvent = \<lparr>serverContent = Some (noContent\<lparr>turnComplete := True\<rparr>)\<rparr>"

definition interruptedEvent :: LiveServerMessage where
  "interruptedEvent = \<lparr>serverContent = Some (noContent\<lparr>interrupted := True\<rparr>)\<rparr>"

definition audioChunk :: "js_string \<Rightarrow> LiveServerMessage" where
  "audioChunk b64 =
     \<lparr>serverContent = Some
        (noContent\<lparr>modelTurn :=
           Some \<lparr>parts = Some [\<lparr>inlineData = Some \<lparr>data = Some b64\<rparr>\<rparr>]\<rparr>\<rparr>)\<rparr>"

text \<open>
  Messages are handled in arrival order, each to its end before the next; a handler
  that throws leaves the state it reached. Each message comes with the reading of
  \<^verbatim>\<open>audioCtx.currentTime\<close> at its handling.
\<close>

fun dispatch ::
  "(js_string \<Rightarrow> AudioBuffer option) \<Rightarrow> (real \<times> LiveServerMessage) list \<Rightarrow> app \<Rightarrow> app" where
  "dispatch dec [] s = s"
| "dispatch dec ((now, m) # evs) s = dispatch dec evs (after (onmessage dec now m s))"

definition isInterrupted :: "LiveServerMessage \<Rightarrow> bool" where
  "isInterrupted m = (case serverContent m of None \<Rightarrow> False | Some sc \<Rightarrow> interrupted sc)"

definition isTurnComplete :: "LiveServerMessage \<Rightarrow> bool" where
  "isTurnComplete m = (case serverContent m of None \<Rightarrow> False | Some sc \<Rightarrow> turnComplete sc)"

text \<open>The segments of a playback trace: start time and duration of every started source.\<close>

fun scheduled :: "audio_effect list \<Rightarrow> (real \<times> real) list" where
  "scheduled [] = []"
| "scheduled (Start n t # es) = (t, duration (buffer n)) # scheduled es"
| "scheduled (Stop n # es) = scheduled es"

text \<open>Every segment starts no earlier than its predecessor ends.\<close>

fun back_to_back :: "(real \<times> real) list \<Rightarrow> bool" where
  "back_to_back [] = True"
| "back_to_back [x] = True"
| "back_to_back ((t1, d1) # (t2, d2) # r) = (t1 + d1 \<le> t2 \<and> back_to_back ((t2, d2) # r))"

text \<open>
  The scheduler in the words of the specification, for comparison with the handler:
  \<^verbatim>\<open>enqueue\<close> sets \<^verbatim>\<open>startTime = max(OutputClock, currentRealTime)\<close> and advances
  \<^verbatim>\<open>OutputClock = startTime + duration\<close>. \<open>spec_enqueue_all clock xs\<close> takes the real
  time and the duration of each enqueue and gives the segments, start time and
  duration each.
\<close>

definition spec_startTime :: "real \<Rightarrow> real \<Rightarrow> real" where
  "spec_startTime outputClock currentRealTime = max outputClock currentRealTime"

fun spec_enqueue_all :: "real \<Rightarrow> (real \<times> real) list \<Rightarrow> (real \<times> real) list" where
  "spec_enqueue_all outputClock [] = []"
| "spec_enqueue_all outputClock ((currentRealTime, d) # xs) =
     (spec_startTime outputClock currentRealTime, d)
       # spec_enqueue_all (spec_startTime outputClock currentRealTime + d) xs"

fun spec_clock_after :: "real \<Rightarrow> (real \<times> real) list \<Rightarrow> real" where
  "spec_clock_after outputClock [] = outputClock"
| "spec_clock_after outputClock ((currentRealTime, d) # xs) =
     spec_clock_after (spec_startTime outputClock currentRealTime + d) xs"

text \<open>The utterances of a list of fragments: the texts of one speaker, concatenated.\<close>

definition fragments_of :: "Role \<Rightarrow> (Role \<times> js_string) list \<Rightarrow> js_string" where
  "fragments_of speaker frs = concat (map snd (filter (\<lambda>f. fst f = speaker) frs))"

definition utterance :: "Role \<Rightarrow> js_string \<Rightarrow> AudioMessage list" where
  "utterance speaker txt =
     (if trim txt = [] then [] else [\<lparr>role = speaker, message_text = Some txt\<rparr>])"

text \<open>A run of transcription fragments, each with the clock reading at its handling.\<close>

definition fragmentEvents ::
  "(real \<times> Role \<times> js_string) list \<Rightarrow> (real \<times> LiveServerMessage) list" where
  "fragmentEvents frs = map (\<lambda>(now, speaker, txt). (now, transcriptFragment speaker txt)) frs"

text \<open>A message has audio when line 229 finds a non-empty string.\<close>

definition hasAudio :: "LiveServerMessage \<Rightarrow> bool" where
  "hasAudio m = (case base64Audio m of Some (Some b64) \<Rightarrow> b64 \<noteq> [] | _ \<Rightarrow> False)"

text \<open>
  A run of audio chunks, each with the clock reading at its handling, and the
  durations their data decode to.
\<close>

definition chunkEvents :: "(real \<times> js_string) list \<Rightarrow> (real \<times> LiveServerMessage) list" where
  "chunkEvents chunks = map (\<lambda>(now, b64). (now, audioChunk b64)) chunks"

definition decodable :: "(js_string \<Rightarrow> AudioBuffer option) \<Rightarrow> real \<times> js_string \<Rightarrow> bool" where
  "decodable dec c = (snd c \<noteq> [] \<and> dec (snd c) \<noteq> None)"

definition chunkDurations ::
  "(js_string \<Rightarrow> AudioBuffer option) \<Rightarrow> (real \<times> js_string) list \<Rightarrow> (real \<times> real) list" where
  "chunkDurations dec chunks =
     map (\<lambda>(now, b64). (now, case dec b64 of None \<Rightarrow> 0 | Some buf \<Rightarrow> duration buf)) chunks"

text \<open>The segments started between two states of one run.\<close>

definition scheduled_since :: "app \<Rightarrow> app \<Rightarrow> (real \<times> real) list" where
  "scheduled_since s s' = drop (length (scheduled (playback s))) (scheduled (playback s'))"

definition notInterrupted :: "real \<times> LiveServerMessage \<Rightarrow> bool" where
  "notInterrupted ev = (\<not> isInterrupted (snd ev))"

section \<open>The audio codec\<close>

text \<open>
  \<^verbatim>\<open>createPCM16Blob\<close>, \<^verbatim>\<open>decode\<close> and \<^verbatim>\<open>decodeAudioData\<close> of \<^verbatim>\<open>services/audioUtils\<close>,
  imported at line 5 of \<^verbatim>\<open>App.tsx\<close>, are not among the sources. The definitions of
  this section follow the specification's AudioCodec instead. Samples are reals.
\<close>

text \<open>
  Modelled from the spec: the clamp of \<^verbatim>\<open>encode\<close>, whose source is missing: "values
  outside [-1,1] are clamped first".
\<close>

definition clamp_sample :: "real \<Rightarrow> real" where
  "clamp_sample x = max (- 1) (min 1 x)"

text \<open>
  Modelled from the spec: the rounding of \<^verbatim>\<open>encode\<close>, whose source is missing:
  "round-half-away-from-zero".
\<close>

definition round_half_away :: "real \<Rightarrow> int" where
  "round_half_away x = (if 0 \<le> x then \<lfloor>x + 1 / 2\<rfloor> else - \<lfloor>- x + 1 / 2\<rfloor>)"

text \<open>
  Modelled from the spec: the quantization of \<^verbatim>\<open>encode\<close>, whose source is missing:
  "quantizes each sample to a signed 16-bit integer". The specification names the
  divisor of \<^verbatim>\<open>decode\<close> only, 32768; the quantization is taken as its inverse, the
  scale 32768, kept within the 16-bit range (a sample of 1 gives 32767).
\<close>

definition quantize :: "real \<Rightarrow> 16 word" where
  "quantize x =
     word_of_int (max (- 32768) (min 32767 (round_half_away (clamp_sample x * 32768))))"

text \<open>
  Modelled from the spec: the serialization of \<^verbatim>\<open>encode\<close>, whose source is missing:
  "serializes as little-endian bytes", low byte first.
\<close>

definition le_bytes :: "16 word \<Rightarrow> 8 word list" where
  "le_bytes w = [ucast w, ucast (drop_bit 8 w)]"

text \<open>
  Modelled from the spec: \<^verbatim>\<open>AudioCodec.encode\<close> (\<^verbatim>\<open>createPCM16Blob\<close> before its base64
  framing), whose source is missing. An empty buffer gives an empty frame.
\<close>

definition encode :: "real list \<Rightarrow> 8 word list" where
  "encode samples = concat (map (\<lambda>x. le_bytes (quantize x)) samples)"

text \<open>
  Modelled from the spec: the 16-bit sample that \<^verbatim>\<open>decode\<close>, whose source is missing,
  reads from two little-endian bytes.
\<close>

definition le_int16 :: "8 word \<Rightarrow> 8 word \<Rightarrow> 16 word" where
  "le_int16 lo hi = ucast lo OR push_bit 8 (ucast hi)"

text \<open>
  Modelled from the spec: \<^verbatim>\<open>AudioCodec.decode\<close> (\<^verbatim>\<open>decodeAudioData\<close> for one channel),
  whose source is missing: "inverse quantization (int16 / 32768.0)", "truncating the
  trailing partial sample".
\<close>

fun decode :: "8 word list \<Rightarrow> real list" where
  "decode (lo # hi # bs) = real_of_int (sint (le_int16 lo hi)) / 32768 # decode bs"
| "decode bs = []"

section \<open>A sample session\<close>

text \<open>
  A stand-in for the decoder, used on concrete runs: data of 8, 16, ... characters
  decode to 3, 6, ... frames at 24 kHz, anything else throws. The session: a persona
  is selected, \<^verbatim>\<open>connect\<close> succeeds, the channel opens, then one fragment of each
  speaker and two audio chunks arrive.
\<close>

definition demo_decodeAudioData :: "js_string \<Rightarrow> AudioBuffer option" where
  "demo_decodeAudioData b64 =
     (if length b64 mod 8 = 0
      then Some \<lparr>buffer_length = length b64 div 8 * 3, sampleRate = 24000\<rparr>
      else None)"

definition demo_connected :: app where
  "demo_connected = onopen (connect None Fulfilled (initial\<lparr>mode := Some GIRLFRIEND\<rparr>))"

definition demo_midturn :: app where
  "demo_midturn =
     dispatch demo_decodeAudioData
       [(0, transcriptFragment user (utf16 ''hi'')),
        (0, transcriptFragment model (utf16 ''Hel'')),
        (0, audioChunk (utf16 ''AAAAAAAA'')),
        (1, audioChunk (utf16 ''AAAAAAAAAAAAAAAA''))]
       demo_connected"

definition demo_blank_turn :: app where
  "demo_blank_turn =
     dispatch demo_decodeAudioData [(0, transcriptFragment user (utf16 '' ''))] demo_connected"

definition demo_both :: LiveServerMessage where
  "demo_both =
     \<lparr>serverContent = Some
        (noContent\<lparr>outputTranscription := Some \<lparr>transcription_text = Some (utf16 ''lo'')\<rparr>,
                   inputTranscription := Some \<lparr>transcription_text = Some (utf16 ''!'')\<rparr>\<rparr>)\<rparr>"

text \<open>The sample session torn down in mid-turn, then a second session opened.\<close>

definition demo_reconnected :: app where
  "demo_reconnected = onopen (connect None Fulfilled (after (disconnect demo_midturn)))"

section \<open>Facts about the handlers\<close>

lemma demo_connected_eq:
  "demo_connected =
     \<lparr>mode = Some GIRLFRIEND, connectionState = connected, isMicMuted = False, messages = [],
      streamingUserText = [], streamingModelText = [], error = None,
      audioContextRef = Some (AudioContext 24000),
      inputContextRef = Some (AudioContext 16000), sessionPromiseRef = Some Fulfilled,
      nextStartTimeRef = 0, sourcesRef = [], currentInputTranscriptionRef = [],
      currentOutputTranscriptionRef = [], streamRef = Some (), callbacks_isMicMuted = False,
      scriptProcessor = Some False, created = 0, playback = [], sent = []\<rparr>"
  by (simp add: demo_connected_def onopen_def connect_def initial_def)

lemma onmessage_transcriptFragment_user:
  "onmessage dec now (transcriptFragment user txt) s =
     Returned (s\<lparr>currentInputTranscriptionRef := currentInputTranscriptionRef s @ txt,
                 streamingUserText := currentInputTranscriptionRef s @ txt\<rparr>)"
  by (simp add: onmessage_def handleAudio_def handleTurnComplete_def handleTranscription_def
      handleInterruption_def base64Audio_def transcriptFragment_def noContent_def append_text_def
      Let_def)

lemma onmessage_transcriptFragment_model:
  "onmessage dec now (transcriptFragment model txt) s =
     Returned (s\<lparr>currentOutputTranscriptionRef := currentOutputTranscriptionRef s @ txt,
                 streamingModelText := currentOutputTranscriptionRef s @ txt\<rparr>)"
  by (simp add: onmessage_def handleAudio_def handleTurnComplete_def handleTranscription_def
      handleInterruption_def base64Audio_def transcriptFragment_def noContent_def append_text_def
      Let_def)

lemma onmessage_interruptedEvent:
  "onmessage dec now interruptedEvent s =
     Returned (s\<lparr>playback := playback s @ map Stop (sourcesRef s), sourcesRef := [],
                 nextStartTimeRef := 0, currentOutputTranscriptionRef := [],
                 streamingModelText := []\<rparr>)"
  by (simp add: onmessage_def handleAudio_def handleTurnComplete_def handleTranscription_def
      handleInterruption_def base64Audio_def interruptedEvent_def noContent_def)

lemma onmessage_turnCompleteEvent:
  "onmessage dec now turnCompleteEvent s =
     Returned (s\<lparr>streamingUserText := [], streamingModelText := [],
                 currentInputTranscriptionRef := [], currentOutputTranscriptionRef := [],
                 messages := messages s @ utterance user (currentInputTranscriptionRef s)
                                        @ utterance model (currentOutputTranscriptionRef s)\<rparr>)"
  by (simp add: onmessage_def handleAudio_def handleTurnComplete_def handleTranscription_def
      handleInterruption_def base64Audio_def turnCompleteEvent_def noContent_def Let_def
      newMessages_def utterance_def)

lemma onmessage_audioChunk:
  assumes "b64 \<noteq> []" and "audioContextRef s = Some ctx" and "dec b64 = Some buf"
  shows "onmessage dec now (audioChunk b64) s =
     Returned (s\<lparr>nextStartTimeRef := max (nextStartTimeRef s) now + duration buf,
                 created := Suc (created s),
                 playback := playback s @ [Start \<lparr>node_id = created s, buffer = buf\<rparr> (max (nextStartTimeRef s) now)],
                 sourcesRef := sourcesRef s @ [\<lparr>node_id = created s, buffer = buf\<rparr>]\<rparr>)"
  using assms
  by (simp add: onmessage_def handleAudio_def handleTurnComplete_def handleTranscription_def
      handleInterruption_def base64Audio_def audioChunk_def noContent_def Let_def)

lemma demo_midturn_eq:
  "demo_midturn =
     \<lparr>mode = Some GIRLFRIEND, connectionState = connected, isMicMuted = False, messages = [],
      streamingUserText = utf16 ''hi'', streamingModelText = utf16 ''Hel'', error = None,
      audioContextRef = Some (AudioContext 24000),
      inputContextRef = Some (AudioContext 16000), sessionPromiseRef = Some Fulfilled,
      nextStartTimeRef = 4001 / 4000,
      sourcesRef = [\<lparr>node_id = 0, buffer = \<lparr>buffer_length = 3, sampleRate = 24000\<rparr>\<rparr>,
                    \<lparr>node_id = 1, buffer = \<lparr>buffer_length = 6, sampleRate = 24000\<rparr>\<rparr>],
      currentInputTranscriptionRef = utf16 ''hi'',
      currentOutputTranscriptionRef = utf16 ''Hel'', streamRef = Some (), callbacks_isMicMuted = False,
      scriptProcessor = Some False, created = 2,
      playback = [Start \<lparr>node_id = 0, buffer = \<lparr>buffer_length = 3, sampleRate = 24000\<rparr>\<rparr> 0,
                  Start \<lparr>node_id = 1, buffer = \<lparr>buffer_length = 6, sampleRate = 24000\<rparr>\<rparr> 1], sent = []\<rparr>"
  by (simp add: demo_midturn_def demo_connected_eq onmessage_transcriptFragment_user
      onmessage_transcriptFragment_model onmessage_audioChunk [where ctx = "AudioContext 24000"]
      demo_decodeAudioData_def utf16_def duration_def)

lemma disconnect_messages: "messages (after (disconnect s)) = messages s"
  by (simp add: disconnect_def Let_def split: option.split session_promise.split)

lemma disconnect_Returned:
  assumes "sessionPromiseRef s \<noteq> Some Rejected"
  shows "disconnect s =
     Returned (s\<lparr>streamRef := None, sessionPromiseRef := None, audioContextRef := None,
                 inputContextRef := None,
                 playback := playback s @ map Stop (sourcesRef s), sourcesRef := [],
                 connectionState := disconnected, currentInputTranscriptionRef := [],
                 currentOutputTranscriptionRef := [], streamingUserText := [],
                 streamingModelText := []\<rparr>)"
  using assms
  by (cases "sessionPromiseRef s"; cases "streamRef s")
    (auto simp: disconnect_def Let_def split: session_promise.split)

lemma scheduled_append: "scheduled (es @ es') = scheduled es @ scheduled es'"
  by (induction es rule: scheduled.induct) auto

section \<open>Interruption\<close>

text \<open>
  Claim C2. Handling an \<^verbatim>\<open>interrupted\<close> message from any state (whatever the model-side
  text and however many sources are in flight) stops every source of the set, leaves
  the set empty, sets the output clock to 0 and empties the model-side buffer and live
  text; the user-side buffer, the live user text and the finalized messages are as
  before.
\<close>

theorem interrupted_clears_playback_and_model_text:
  "sourcesRef (after (onmessage dec now interruptedEvent s)) = [] \<and>
   playback (after (onmessage dec now interruptedEvent s)) = playback s @ map Stop (sourcesRef s) \<and>
   nextStartTimeRef (after (onmessage dec now interruptedEvent s)) = 0 \<and>
   currentOutputTranscriptionRef (after (onmessage dec now interruptedEvent s)) = [] \<and>
   streamingModelText (after (onmessage dec now interruptedEvent s)) = [] \<and>
   currentInputTranscriptionRef (after (onmessage dec now interruptedEvent s)) =
     currentInputTranscriptionRef s \<and>
   streamingUserText (after (onmessage dec now interruptedEvent s)) = streamingUserText s \<and>
   messages (after (onmessage dec now interruptedEvent s)) = messages s"
  by (simp add: onmessage_interruptedEvent)

theorem interrupted_clears_playback_and_model_text_witness:
  "currentOutputTranscriptionRef demo_midturn = utf16 ''Hel'' \<and>
   length (sourcesRef demo_midturn) = 2 \<and>
   nextStartTimeRef demo_midturn = 4001 / 4000 \<and>
   sourcesRef (after (onmessage demo_decodeAudioData 2 interruptedEvent demo_midturn)) = [] \<and>
   nextStartTimeRef (after (onmessage demo_decodeAudioData 2 interruptedEvent demo_midturn)) = 0 \<and>
   currentOutputTranscriptionRef
     (after (onmessage demo_decodeAudioData 2 interruptedEvent demo_midturn)) = [] \<and>
   currentInputTranscriptionRef
     (after (onmessage demo_decodeAudioData 2 interruptedEvent demo_midturn)) = utf16 ''hi'' \<and>
   messages (after (onmessage demo_decodeAudioData 2 interruptedEvent demo_midturn)) = []"
  using interrupted_clears_playback_and_model_text [of demo_decodeAudioData 2 demo_midturn]
  by (simp add: demo_midturn_eq)

text \<open>
  Claim C7. The flush is idempotent: running the interruption block twice gives the
  state that running it once gives, for every message and state, and so does handling
  two \<^verbatim>\<open>interrupted\<close> messages in a row, whatever the clock readings; in that state the
  playback trace is part, so the second flush stops nothing. When the set is empty
  and the clock is 0 already, the flush leaves set, clock and trace as they are.
\<close>

theorem flush_idempotent:
  "handleInterruption m (handleInterruption m s) = handleInterruption m s \<and>
   after (onmessage dec now' interruptedEvent (after (onmessage dec now interruptedEvent s))) =
     after (onmessage dec now interruptedEvent s) \<and>
   (sourcesRef s = [] \<and> nextStartTimeRef s = 0 \<longrightarrow>
      sourcesRef (handleInterruption m s) = [] \<and>
      nextStartTimeRef (handleInterruption m s) = 0 \<and>
      playback (handleInterruption m s) = playback s)"
  by (simp add: onmessage_interruptedEvent handleInterruption_def split: option.split)

theorem flush_idempotent_witness:
  "sourcesRef (handleInterruption interruptedEvent demo_midturn) = [] \<and>
   nextStartTimeRef (handleInterruption interruptedEvent demo_midturn) = 0 \<and>
   playback (handleInterruption interruptedEvent (handleInterruption interruptedEvent demo_midturn)) =
     playback (handleInterruption interruptedEvent demo_midturn) \<and>
   length (playback (handleInterruption interruptedEvent demo_midturn)) = 4"
proof -
  have e: "sourcesRef (handleInterruption interruptedEvent demo_midturn) = [] \<and>
      nextStartTimeRef (handleInterruption interruptedEvent demo_midturn) = 0"
    by (simp add: handleInterruption_def interruptedEvent_def noContent_def)
  have l: "length (playback (handleInterruption interruptedEvent demo_midturn)) = 4"
    by (simp add: handleInterruption_def interruptedEvent_def noContent_def demo_midturn_eq)
  from e l
    flush_idempotent [of interruptedEvent "handleInterruption interruptedEvent demo_midturn"
      demo_decodeAudioData 0 0]
  show ?thesis by simp
qed

section \<open>Teardown\<close>

text \<open>
  Claim C6, evaluated on the code: after two audio chunks the output clock stands at
  4001/4000 s with two sources in flight. \<^verbatim>\<open>disconnect\<close> runs to its end, stops both
  sources and clears the set, and the output clock still reads 4001/4000, where the
  interruption block of \<^verbatim>\<open>onmessage\<close> sets it to 0. In the session opened next, whose
  audio context starts its clock anew, a chunk arriving at 0.1 s is scheduled at
  4001/4000 s.
\<close>

theorem disconnect_keeps_output_clock:
  "nextStartTimeRef demo_midturn = 4001 / 4000 \<and>
   disconnect demo_midturn = Returned (after (disconnect demo_midturn)) \<and>
   sourcesRef (after (disconnect demo_midturn)) = [] \<and>
   playback (after (disconnect demo_midturn)) =
     playback demo_midturn @ map Stop (sourcesRef demo_midturn) \<and>
   nextStartTimeRef (after (disconnect demo_midturn)) = 4001 / 4000 \<and>
   nextStartTimeRef (after (onmessage demo_decodeAudioData 2 interruptedEvent demo_midturn)) = 0 \<and>
   scheduled_since demo_reconnected
     (after (onmessage demo_decodeAudioData (1 / 10) (audioChunk (utf16 ''AAAAAAAA''))
        demo_reconnected)) = [(4001 / 4000, 1 / 8000)]"
proof -
  have down: "disconnect demo_midturn =
     Returned (demo_midturn\<lparr>streamRef := None, sessionPromiseRef := None, audioContextRef := None,
                 inputContextRef := None,
                 playback := playback demo_midturn @ map Stop (sourcesRef demo_midturn),
                 sourcesRef := [],
                 connectionState := disconnected, currentInputTranscriptionRef := [],
                 currentOutputTranscriptionRef := [], streamingUserText := [],
                 streamingModelText := []\<rparr>)"
    by (rule disconnect_Returned) (simp add: demo_midturn_eq)
  have mid: "mode demo_midturn = Some GIRLFRIEND" "nextStartTimeRef demo_midturn = 4001 / 4000"
    by (simp_all add: demo_midturn_eq)
  have again: "audioContextRef demo_reconnected = Some (AudioContext 24000)"
    "nextStartTimeRef demo_reconnected = 4001 / 4000"
    by (simp_all add: demo_reconnected_def down onopen_def connect_def mid)
  have chunk: "utf16 ''AAAAAAAA'' \<noteq> []"
    "demo_decodeAudioData (utf16 ''AAAAAAAA'') = Some \<lparr>buffer_length = 3, sampleRate = 24000\<rparr>"
    by (simp_all add: utf16_def demo_decodeAudioData_def)
  have "scheduled_since demo_reconnected
     (after (onmessage demo_decodeAudioData (1 / 10) (audioChunk (utf16 ''AAAAAAAA''))
        demo_reconnected)) = [(4001 / 4000, 1 / 8000)]"
    by (simp add: onmessage_audioChunk
          [where dec = demo_decodeAudioData, OF chunk(1) again(1) chunk(2)]
        scheduled_since_def scheduled_append again(2) duration_def)
  then show ?thesis
    by (simp add: down onmessage_interruptedEvent mid)
qed

section \<open>Capture and mute\<close>

text \<open>
  Claim C5, evaluated on the code: in a session connected while unmuted, after
  \<^verbatim>\<open>toggleMute\<close> the state \<^verbatim>\<open>isMicMuted\<close> is true, and the next capture buffer is sent
  all the same: the handler reads the \<^verbatim>\<open>isMicMuted\<close> of the render that called
  \<^verbatim>\<open>connect\<close>.
\<close>

theorem mute_toggle_not_seen_by_capture:
  "isMicMuted (toggleMute demo_connected) \<and>
   sent (toggleMute demo_connected) = [] \<and>
   sent (onaudioprocess [1 / 2, - 1 / 4] (toggleMute demo_connected)) = [[1 / 2, - 1 / 4]]"
  by (simp add: toggleMute_def onaudioprocess_def demo_connected_eq)

section \<open>What each block of the message handler leaves alone\<close>

lemma duration_nonneg: "0 \<le> duration b"
  by (simp add: duration_def)

lemma handleTranscription_frame:
  "nextStartTimeRef (handleTranscription m s) = nextStartTimeRef s"
  "sourcesRef (handleTranscription m s) = sourcesRef s"
  "playback (handleTranscription m s) = playback s"
  "messages (handleTranscription m s) = messages s"
  "audioContextRef (handleTranscription m s) = audioContextRef s"
  by (simp_all add: handleTranscription_def Let_def split: option.split)

lemma handleTurnComplete_frame:
  "nextStartTimeRef (handleTurnComplete m s) = nextStartTimeRef s"
  "sourcesRef (handleTurnComplete m s) = sourcesRef s"
  "playback (handleTurnComplete m s) = playback s"
  "audioContextRef (handleTurnComplete m s) = audioContextRef s"
  by (simp_all add: handleTurnComplete_def Let_def split: option.split)

lemma handleInterruption_not_interrupted:
  "\<not> isInterrupted m \<Longrightarrow> handleInterruption m s = s"
  by (auto simp: handleInterruption_def isInterrupted_def split: option.splits)

lemma handleAudio_clock_mono:
  "\<not> isInterrupted m \<Longrightarrow> nextStartTimeRef s \<le> nextStartTimeRef (after (handleAudio dec now m s))"
  using duration_nonneg
  by (auto simp: handleAudio_def handleInterruption_not_interrupted Let_def add_increasing2
      split: option.split)

lemma dispatch_fragments_user:
  "currentInputTranscriptionRef (dispatch dec (fragmentEvents frs) s) =
     currentInputTranscriptionRef s @ fragments_of user (map snd frs)"
proof (induction frs arbitrary: s)
  case Nil
  show ?case by (simp add: fragmentEvents_def fragments_of_def)
next
  case (Cons f frs)
  obtain now speaker frag where f: "f = (now, speaker, frag)" by (cases f) auto
  show ?case
    using Cons.IH [of "after (onmessage dec now (transcriptFragment speaker frag) s)"]
    by (cases speaker)
      (simp_all add: f fragmentEvents_def fragments_of_def onmessage_transcriptFragment_user
        onmessage_transcriptFragment_model)
qed

lemma dispatch_fragments_model:
  "currentOutputTranscriptionRef (dispatch dec (fragmentEvents frs) s) =
     currentOutputTranscriptionRef s @ fragments_of model (map snd frs)"
proof (induction frs arbitrary: s)
  case Nil
  show ?case by (simp add: fragmentEvents_def fragments_of_def)
next
  case (Cons f frs)
  obtain now speaker frag where f: "f = (now, speaker, frag)" by (cases f) auto
  show ?case
    using Cons.IH [of "after (onmessage dec now (transcriptFragment speaker frag) s)"]
    by (cases speaker)
      (simp_all add: f fragmentEvents_def fragments_of_def onmessage_transcriptFragment_user
        onmessage_transcriptFragment_model)
qed

lemma dispatch_fragments_messages:
  "messages (dispatch dec (fragmentEvents frs) s) = messages s"
proof (induction frs arbitrary: s)
  case Nil
  show ?case by (simp add: fragmentEvents_def)
next
  case (Cons f frs)
  obtain now speaker frag where f: "f = (now, speaker, frag)" by (cases f) auto
  show ?case
    using Cons.IH [of "after (onmessage dec now (transcriptFragment speaker frag) s)"]
    by (cases speaker)
      (simp_all add: f fragmentEvents_def onmessage_transcriptFragment_user
        onmessage_transcriptFragment_model)
qed

section \<open>Turn completion\<close>

text \<open>
  Claim C3, as the code has it. From any buffer contents, after any sequence of
  transcription fragments, \<^verbatim>\<open>turnComplete\<close> appends to the messages the user utterance
  and then the model utterance, each present exactly when the speaker's buffered text
  has a character left after \<^verbatim>\<open>trim()\<close>, each with the untrimmed text: the buffer as it
  stood followed by that speaker's fragments in arrival order. Both buffers and both
  live texts are then empty.
\<close>

theorem turnComplete_emits_nonblank_user_then_model:
  "messages (after (onmessage dec now turnCompleteEvent (dispatch dec (fragmentEvents frs) s))) =
     messages s
     @ utterance user (currentInputTranscriptionRef s @ fragments_of user (map snd frs))
     @ utterance model (currentOutputTranscriptionRef s @ fragments_of model (map snd frs)) \<and>
   currentInputTranscriptionRef
     (after (onmessage dec now turnCompleteEvent (dispatch dec (fragmentEvents frs) s))) = [] \<and>
   currentOutputTranscriptionRef
     (after (onmessage dec now turnCompleteEvent (dispatch dec (fragmentEvents frs) s))) = [] \<and>
   streamingUserText
     (after (onmessage dec now turnCompleteEvent (dispatch dec (fragmentEvents frs) s))) = [] \<and>
   streamingModelText
     (after (onmessage dec now turnCompleteEvent (dispatch dec (fragmentEvents frs) s))) = []"
  by (simp add: onmessage_turnCompleteEvent dispatch_fragments_user dispatch_fragments_model
      dispatch_fragments_messages)

theorem turnComplete_emits_nonblank_user_then_model_witness:
  "messages
     (after (onmessage demo_decodeAudioData 3 turnCompleteEvent
        (dispatch demo_decodeAudioData
           (fragmentEvents [(0, model, utf16 ''b''), (1, user, utf16 ''a ''), (2, user, utf16 ''c'')])
           demo_connected))) =
     [\<lparr>role = user, message_text = Some (utf16 ''a c'')\<rparr>,
      \<lparr>role = model, message_text = Some (utf16 ''b'')\<rparr>]"
  using turnComplete_emits_nonblank_user_then_model
    [of demo_decodeAudioData 3
      "[(0, model, utf16 ''b''), (1, user, utf16 ''a ''), (2, user, utf16 ''c'')]" demo_connected]
  by (simp add: demo_connected_eq fragments_of_def utterance_def trim_def is_js_whitespace_def
      utf16_def)

text \<open>
  A user buffer holding one space is not empty, and \<^verbatim>\<open>turnComplete\<close> appends no
  utterance for it.
\<close>

theorem blank_turn_buffer_emits_nothing:
  "currentInputTranscriptionRef demo_blank_turn = utf16 '' '' \<and>
   currentInputTranscriptionRef demo_blank_turn \<noteq> [] \<and>
   messages (after (onmessage demo_decodeAudioData 1 turnCompleteEvent demo_blank_turn)) =
     messages demo_blank_turn"
  by (simp add: demo_blank_turn_def demo_connected_eq onmessage_transcriptFragment_user
      onmessage_turnCompleteEvent utterance_def trim_def is_js_whitespace_def utf16_def)

section \<open>A message with both transcriptions\<close>

lemma handleAudio_text_frame:
  assumes "\<not> isInterrupted m"
  shows "currentInputTranscriptionRef (after (handleAudio dec now m s)) = currentInputTranscriptionRef s"
    and "currentOutputTranscriptionRef (after (handleAudio dec now m s)) = currentOutputTranscriptionRef s"
    and "streamingUserText (after (handleAudio dec now m s)) = streamingUserText s"
    and "streamingModelText (after (handleAudio dec now m s)) = streamingModelText s"
    and "messages (after (handleAudio dec now m s)) = messages s"
  using assms
  by (simp_all add: handleAudio_def handleInterruption_not_interrupted Let_def
      split: option.split)

lemma handleTurnComplete_not_complete:
  "\<not> isTurnComplete m \<Longrightarrow> handleTurnComplete m s = s"
  by (auto simp: handleTurnComplete_def isTurnComplete_def split: option.splits)

text \<open>
  Claim C10. For every message that carries both an output and an input transcription,
  the transcription block appends the output fragment to the model buffer, shows it as
  the live model text and changes nothing else: the input fragment is dropped, the
  user buffer and the live user text stay. When the message carries neither
  \<^verbatim>\<open>turnComplete\<close> nor \<^verbatim>\<open>interrupted\<close>, the same holds of the four texts after the whole
  handler.
\<close>

theorem both_fragments_only_model_appended:
  assumes "serverContent m = Some sc"
    and "outputTranscription sc = Some otr"
    and "inputTranscription sc = Some itr"
  shows "handleTranscription m s =
       s\<lparr>currentOutputTranscriptionRef :=
           append_text (currentOutputTranscriptionRef s) (transcription_text otr),
         streamingModelText :=
           append_text (currentOutputTranscriptionRef s) (transcription_text otr)\<rparr> \<and>
     (\<not> turnComplete sc \<and> \<not> interrupted sc \<longrightarrow>
        currentOutputTranscriptionRef (after (onmessage dec now m s)) =
          append_text (currentOutputTranscriptionRef s) (transcription_text otr) \<and>
        streamingModelText (after (onmessage dec now m s)) =
          append_text (currentOutputTranscriptionRef s) (transcription_text otr) \<and>
        currentInputTranscriptionRef (after (onmessage dec now m s)) =
          currentInputTranscriptionRef s \<and>
        streamingUserText (after (onmessage dec now m s)) = streamingUserText s)"
proof -
  have block: "handleTranscription m s =
       s\<lparr>currentOutputTranscriptionRef :=
           append_text (currentOutputTranscriptionRef s) (transcription_text otr),
         streamingModelText :=
           append_text (currentOutputTranscriptionRef s) (transcription_text otr)\<rparr>"
    using assms by (simp add: handleTranscription_def Let_def)
  have whole: "currentOutputTranscriptionRef (after (onmessage dec now m s)) =
          append_text (currentOutputTranscriptionRef s) (transcription_text otr) \<and>
        streamingModelText (after (onmessage dec now m s)) =
          append_text (currentOutputTranscriptionRef s) (transcription_text otr) \<and>
        currentInputTranscriptionRef (after (onmessage dec now m s)) =
          currentInputTranscriptionRef s \<and>
        streamingUserText (after (onmessage dec now m s)) = streamingUserText s"
    if "\<not> turnComplete sc" and "\<not> interrupted sc"
  proof -
    from that assms(1) have "\<not> isTurnComplete m" and "\<not> isInterrupted m"
      by (simp_all add: isTurnComplete_def isInterrupted_def)
    then show ?thesis
      by (simp add: onmessage_def handleTurnComplete_not_complete handleAudio_text_frame block)
  qed
  from block whole show ?thesis by blast
qed

theorem both_fragments_only_model_appended_witness:
  "currentOutputTranscriptionRef (after (onmessage demo_decodeAudioData 2 demo_both demo_midturn)) =
     utf16 ''Hello'' \<and>
   streamingModelText (after (onmessage demo_decodeAudioData 2 demo_both demo_midturn)) =
     utf16 ''Hello'' \<and>
   currentInputTranscriptionRef (after (onmessage demo_decodeAudioData 2 demo_both demo_midturn)) =
     utf16 ''hi'' \<and>
   streamingUserText (after (onmessage demo_decodeAudioData 2 demo_both demo_midturn)) =
     utf16 ''hi''"
  using both_fragments_only_model_appended
    [of demo_both
      "noContent\<lparr>outputTranscription := Some \<lparr>transcription_text = Some (utf16 ''lo'')\<rparr>,
                 inputTranscription := Some \<lparr>transcription_text = Some (utf16 ''!'')\<rparr>\<rparr>"
      "\<lparr>transcription_text = Some (utf16 ''lo'')\<rparr>"
      "\<lparr>transcription_text = Some (utf16 ''!'')\<rparr>"
      demo_midturn demo_decodeAudioData 2]
  by (simp add: demo_both_def noContent_def demo_midturn_eq append_text_def utf16_def)

section \<open>Teardown in mid-turn\<close>

text \<open>
  Claim C8. \<^verbatim>\<open>disconnect\<close>, and the \<^verbatim>\<open>onclose\<close> and \<^verbatim>\<open>onerror\<close> callbacks that call it,
  never change the finalized messages. When the session promise is not a rejected one
  (in a turn in progress it is fulfilled) they run to their end and leave both buffers
  and both live texts empty, so that a \<^verbatim>\<open>turnComplete\<close> handled afterwards appends
  nothing either: the text of the unfinished turn is dropped.
\<close>

theorem teardown_drops_unfinished_turn:
  "messages (after (disconnect s)) = messages s \<and>
   messages (after (onclose s)) = messages s \<and>
   messages (after (onerror s)) = messages s \<and>
   (sessionPromiseRef s \<noteq> Some Rejected \<longrightarrow>
      currentInputTranscriptionRef (after (disconnect s)) = [] \<and>
      currentOutputTranscriptionRef (after (disconnect s)) = [] \<and>
      streamingUserText (after (disconnect s)) = [] \<and>
      streamingModelText (after (disconnect s)) = [] \<and>
      after (onclose s) = after (disconnect s) \<and>
      currentInputTranscriptionRef (after (onerror s)) = [] \<and>
      currentOutputTranscriptionRef (after (onerror s)) = [] \<and>
      messages (after (onmessage dec now turnCompleteEvent (after (disconnect s)))) = messages s \<and>
      messages (after (onmessage dec now turnCompleteEvent (after (onerror s)))) = messages s)"
  by (simp add: disconnect_messages onclose_def onerror_def disconnect_Returned
      onmessage_turnCompleteEvent utterance_def trim_def)

theorem teardown_drops_unfinished_turn_witness:
  "currentInputTranscriptionRef demo_midturn = utf16 ''hi'' \<and>
   currentOutputTranscriptionRef demo_midturn = utf16 ''Hel'' \<and>
   sessionPromiseRef demo_midturn = Some Fulfilled \<and>
   messages demo_midturn = [] \<and>
   messages (after (disconnect demo_midturn)) = [] \<and>
   currentInputTranscriptionRef (after (disconnect demo_midturn)) = [] \<and>
   currentOutputTranscriptionRef (after (disconnect demo_midturn)) = [] \<and>
   messages (after (onmessage demo_decodeAudioData 2 turnCompleteEvent
     (after (disconnect demo_midturn)))) = []"
  using teardown_drops_unfinished_turn [of demo_midturn demo_decodeAudioData 2]
  by (simp add: demo_midturn_eq)

section \<open>The output clock\<close>

lemma onmessage_clock_mono:
  "\<not> isInterrupted m \<Longrightarrow> nextStartTimeRef s \<le> nextStartTimeRef (after (onmessage dec now m s))"
  using handleAudio_clock_mono [of m "handleTurnComplete m (handleTranscription m s)" dec now]
  by (simp add: onmessage_def handleTurnComplete_frame handleTranscription_frame)

lemma onmessage_clock_unchanged:
  "\<not> isInterrupted m \<Longrightarrow> \<not> hasAudio m \<Longrightarrow>
     nextStartTimeRef (after (onmessage dec now m s)) = nextStartTimeRef s"
  by (auto simp: onmessage_def handleAudio_def hasAudio_def handleInterruption_not_interrupted
      handleTurnComplete_frame handleTranscription_frame split: option.splits)

text \<open>
  Claim C9, as the code has it. While a message without \<^verbatim>\<open>interrupted\<close> is handled the
  output clock never decreases; a message with neither audio nor \<^verbatim>\<open>interrupted\<close>
  leaves it as it is, and so do the capture handler, the mute toggle, the end of a
  source, \<^verbatim>\<open>connect\<close> and \<^verbatim>\<open>onopen\<close>. An audio chunk advances it to
  \<open>max clock now + duration\<close>. An \<^verbatim>\<open>interrupted\<close> message sets it to 0, whatever the
  current time.
\<close>

theorem output_clock_moves_only_on_audio_and_interrupt:
  "(\<not> isInterrupted m \<longrightarrow>
      nextStartTimeRef s \<le> nextStartTimeRef (after (onmessage dec now m s))) \<and>
   (\<not> isInterrupted m \<and> \<not> hasAudio m \<longrightarrow>
      nextStartTimeRef (after (onmessage dec now m s)) = nextStartTimeRef s) \<and>
   (b64 \<noteq> [] \<and> audioContextRef s \<noteq> None \<and> dec b64 = Some buf \<longrightarrow>
      nextStartTimeRef (after (onmessage dec now (audioChunk b64) s)) =
        max (nextStartTimeRef s) now + duration buf) \<and>
   nextStartTimeRef (after (onmessage dec now interruptedEvent s)) = 0 \<and>
   nextStartTimeRef (onaudioprocess inputData s) = nextStartTimeRef s \<and>
   nextStartTimeRef (toggleMute s) = nextStartTimeRef s \<and>
   nextStartTimeRef (onended i s) = nextStartTimeRef s \<and>
   nextStartTimeRef (onopen s) = nextStartTimeRef s \<and>
   nextStartTimeRef (connect gum p s) = nextStartTimeRef s"
proof -
  have chunk: "nextStartTimeRef (after (onmessage dec now (audioChunk b64) s)) =
        max (nextStartTimeRef s) now + duration buf"
    if "b64 \<noteq> []" and "audioContextRef s \<noteq> None" and "dec b64 = Some buf"
  proof -
    from that(2) obtain ctx where "audioContextRef s = Some ctx" by auto
    with that show ?thesis by (simp add: onmessage_audioChunk [where ctx = ctx])
  qed
  have capture: "nextStartTimeRef (onaudioprocess inputData s) = nextStartTimeRef s"
    by (simp add: onaudioprocess_def split: option.split session_promise.split)
  have conn: "nextStartTimeRef (connect gum p s) = nextStartTimeRef s"
    by (simp add: connect_def Let_def split: option.split)
  from chunk capture conn show ?thesis
    by (simp add: onmessage_clock_mono onmessage_clock_unchanged onmessage_interruptedEvent
        toggleMute_def onended_def onopen_def)
qed

theorem output_clock_moves_only_on_audio_and_interrupt_witness:
  "nextStartTimeRef demo_connected = 0 \<and>
   nextStartTimeRef
     (after (onmessage demo_decodeAudioData 0 (transcriptFragment user (utf16 ''hi'')) demo_connected)) = 0 \<and>
   nextStartTimeRef
     (after (onmessage demo_decodeAudioData (1 / 2) (audioChunk (utf16 ''AAAAAAAA'')) demo_connected)) =
     4001 / 8000"
proof -
  have a: "\<not> isInterrupted (transcriptFragment user (utf16 ''hi''))"
    by (simp add: isInterrupted_def transcriptFragment_def noContent_def)
  have b: "\<not> hasAudio (transcriptFragment user (utf16 ''hi''))"
    by (simp add: hasAudio_def base64Audio_def transcriptFragment_def noContent_def)
  have c: "utf16 ''AAAAAAAA'' \<noteq> []" "audioContextRef demo_connected \<noteq> None"
    "demo_decodeAudioData (utf16 ''AAAAAAAA'') = Some \<lparr>buffer_length = 3, sampleRate = 24000\<rparr>"
    by (simp_all add: utf16_def demo_connected_eq demo_decodeAudioData_def)
  have z: "nextStartTimeRef demo_connected = 0"
    by (simp add: demo_connected_eq)
  from a b z
    output_clock_moves_only_on_audio_and_interrupt
      [of "transcriptFragment user (utf16 ''hi'')" demo_connected demo_decodeAudioData 0]
  have 1: "nextStartTimeRef
     (after (onmessage demo_decodeAudioData 0 (transcriptFragment user (utf16 ''hi'')) demo_connected)) = 0"
    by simp
  from c z
    output_clock_moves_only_on_audio_and_interrupt
      [of "audioChunk (utf16 ''AAAAAAAA'')" demo_connected demo_decodeAudioData "1 / 2"
        "utf16 ''AAAAAAAA''" "\<lparr>buffer_length = 3, sampleRate = 24000\<rparr>"]
  have 2: "nextStartTimeRef
     (after (onmessage demo_decodeAudioData (1 / 2) (audioChunk (utf16 ''AAAAAAAA'')) demo_connected)) =
     4001 / 8000"
    by (simp add: duration_def)
  from z 1 2 show ?thesis by simp
qed

text \<open>
  With the clock at 4001/4000 s and the current time 2 s, an \<^verbatim>\<open>interrupted\<close> message
  takes the clock back to 0: it decreases, and it is not the current time.
\<close>

theorem interrupt_rewinds_output_clock:
  "nextStartTimeRef (after (onmessage demo_decodeAudioData 2 interruptedEvent demo_midturn)) <
     nextStartTimeRef demo_midturn \<and>
   nextStartTimeRef (after (onmessage demo_decodeAudioData 2 interruptedEvent demo_midturn)) \<noteq> 2"
  by (simp add: onmessage_interruptedEvent demo_midturn_eq)

section \<open>Scheduling\<close>

lemma spec_starts_from_clock:
  "list_all (\<lambda>x. c \<le> fst x) (spec_enqueue_all c xs)" if "list_all (\<lambda>x. 0 \<le> snd x) xs"
  using that
proof (induction xs arbitrary: c)
  case Nil
  show ?case by simp
next
  case (Cons x xs)
  obtain now d where x: "x = (now, d)" by (cases x) auto
  from Cons.prems have d: "0 \<le> d" and rest: "list_all (\<lambda>x. 0 \<le> snd x) xs"
    by (simp_all add: x)
  have "list_all (\<lambda>x. spec_startTime c now + d \<le> fst x)
      (spec_enqueue_all (spec_startTime c now + d) xs)"
    by (rule Cons.IH [OF rest])
  moreover have "c \<le> spec_startTime c now + d"
    using d by (simp add: spec_startTime_def max_def)
  ultimately have "list_all (\<lambda>x. c \<le> fst x) (spec_enqueue_all (spec_startTime c now + d) xs)"
    by (auto simp: list_all_iff)
  then show ?case
    by (simp add: x spec_startTime_def)
qed

lemma spec_back_to_back: "back_to_back (spec_enqueue_all c xs)"
proof (induction xs arbitrary: c)
  case Nil
  show ?case by simp
next
  case (Cons x xs)
  obtain now d where x: "x = (now, d)" by (cases x) auto
  show ?case
  proof (cases xs)
    case Nil
    then show ?thesis by (simp add: x)
  next
    case (Cons y ys)
    obtain now' d' where y: "y = (now', d')" by (cases y) auto
    have "back_to_back (spec_enqueue_all (spec_startTime c now + d) xs)"
      by (rule Cons.IH)
    then show ?thesis
      by (simp add: x y Cons spec_startTime_def)
  qed
qed

lemma spec_sorted:
  "sorted (map fst (spec_enqueue_all c xs))" if "list_all (\<lambda>x. 0 \<le> snd x) xs"
  using that
proof (induction xs arbitrary: c)
  case Nil
  show ?case by simp
next
  case (Cons x xs)
  obtain now d where x: "x = (now, d)" by (cases x) auto
  from Cons.prems have d: "0 \<le> d" and rest: "list_all (\<lambda>x. 0 \<le> snd x) xs"
    by (simp_all add: x)
  have "list_all (\<lambda>x. spec_startTime c now + d \<le> fst x)
      (spec_enqueue_all (spec_startTime c now + d) xs)"
    by (rule spec_starts_from_clock [OF rest])
  with d have "\<forall>y \<in> set (spec_enqueue_all (spec_startTime c now + d) xs).
      spec_startTime c now \<le> fst y"
    by (auto simp: list_all_iff)
  with Cons.IH [OF rest] show ?case
    by (simp add: x)
qed

lemma chunkDurations_nonneg: "list_all (\<lambda>x. 0 \<le> snd x) (chunkDurations dec chunks)"
  by (auto simp: chunkDurations_def list_all_iff duration_nonneg split: option.split)

lemma dispatch_chunks:
  assumes "audioContextRef s \<noteq> None" and "list_all (decodable dec) chunks"
  shows "scheduled (playback (dispatch dec (chunkEvents chunks) s)) =
       scheduled (playback s) @ spec_enqueue_all (nextStartTimeRef s) (chunkDurations dec chunks) \<and>
     nextStartTimeRef (dispatch dec (chunkEvents chunks) s) =
       spec_clock_after (nextStartTimeRef s) (chunkDurations dec chunks) \<and>
     audioContextRef (dispatch dec (chunkEvents chunks) s) = audioContextRef s"
  using assms
proof (induction chunks arbitrary: s)
  case Nil
  show ?case by (simp add: chunkEvents_def chunkDurations_def)
next
  case (Cons c chunks)
  obtain now b64 where c: "c = (now, b64)" by (cases c) auto
  from Cons.prems have rest: "list_all (decodable dec) chunks"
    and first: "decodable dec (now, b64)"
    by (simp_all add: c)
  from first have b64: "b64 \<noteq> []"
    by (simp add: decodable_def)
  from first Cons.prems(1) obtain ctx buf where ctx: "audioContextRef s = Some ctx"
    and buf: "dec b64 = Some buf"
    by (auto simp: decodable_def)
  let ?s1 = "after (onmessage dec now (audioChunk b64) s)"
  have s1: "onmessage dec now (audioChunk b64) s =
     Returned (s\<lparr>nextStartTimeRef := max (nextStartTimeRef s) now + duration buf,
                 created := Suc (created s),
                 playback := playback s @ [Start \<lparr>node_id = created s, buffer = buf\<rparr> (max (nextStartTimeRef s) now)],
                 sourcesRef := sourcesRef s @ [\<lparr>node_id = created s, buffer = buf\<rparr>]\<rparr>)"
    using b64 ctx buf by (rule onmessage_audioChunk [where dec = dec])
  have "audioContextRef ?s1 \<noteq> None"
    by (simp add: s1 ctx)
  from Cons.IH [OF this rest] show ?case
    by (simp add: c chunkEvents_def chunkDurations_def s1 buf scheduled_append
        spec_startTime_def)
qed

lemma back_to_back_Cons:
  "list_all (\<lambda>x. t + d \<le> fst x) xs \<Longrightarrow> back_to_back xs \<Longrightarrow> back_to_back ((t, d) # xs)"
  by (cases xs) auto

lemma onmessage_step:
  assumes "\<not> isInterrupted m"
  shows "(scheduled (playback (after (onmessage dec now m s))) = scheduled (playback s) \<and>
      nextStartTimeRef s \<le> nextStartTimeRef (after (onmessage dec now m s))) \<or>
     (\<exists>t d. scheduled (playback (after (onmessage dec now m s))) = scheduled (playback s) @ [(t, d)] \<and>
        nextStartTimeRef s \<le> t \<and> 0 \<le> d \<and>
        t + d \<le> nextStartTimeRef (after (onmessage dec now m s)))"
proof -
  let ?s0 = "handleTurnComplete m (handleTranscription m s)"
  have frame: "playback ?s0 = playback s" "nextStartTimeRef ?s0 = nextStartTimeRef s"
    by (simp_all add: handleTurnComplete_frame handleTranscription_frame)
  have "(scheduled (playback (after (handleAudio dec now m ?s0))) = scheduled (playback ?s0) \<and>
      nextStartTimeRef ?s0 \<le> nextStartTimeRef (after (handleAudio dec now m ?s0))) \<or>
     (\<exists>t d. scheduled (playback (after (handleAudio dec now m ?s0))) =
          scheduled (playback ?s0) @ [(t, d)] \<and>
        nextStartTimeRef ?s0 \<le> t \<and> 0 \<le> d \<and>
        t + d \<le> nextStartTimeRef (after (handleAudio dec now m ?s0)))"
    using assms duration_nonneg
    by (auto simp: handleAudio_def handleInterruption_not_interrupted Let_def scheduled_append
        split: option.split)
  then show ?thesis
    by (simp add: onmessage_def frame)
qed

lemma dispatch_no_interrupt:
  assumes "list_all notInterrupted evs"
  shows "\<exists>new. scheduled (playback (dispatch dec evs s)) = scheduled (playback s) @ new \<and>
     back_to_back new \<and> sorted (map fst new) \<and>
     list_all (\<lambda>x. nextStartTimeRef s \<le> fst x) new \<and>
     nextStartTimeRef s \<le> nextStartTimeRef (dispatch dec evs s)"
  using assms
proof (induction evs arbitrary: s)
  case Nil
  show ?case by simp
next
  case (Cons ev evs)
  obtain now m where ev: "ev = (now, m)" by (cases ev) auto
  from Cons.prems have rest: "list_all notInterrupted evs" and "notInterrupted (now, m)"
    by (simp_all add: ev)
  then have m: "\<not> isInterrupted m"
    by (simp add: notInterrupted_def)
  let ?s1 = "after (onmessage dec now m s)"
  from Cons.IH [OF rest, of ?s1] obtain new
    where new: "scheduled (playback (dispatch dec evs ?s1)) = scheduled (playback ?s1) @ new"
      and b: "back_to_back new" and so: "sorted (map fst new)"
      and ge: "list_all (\<lambda>x. nextStartTimeRef ?s1 \<le> fst x) new"
      and clock: "nextStartTimeRef ?s1 \<le> nextStartTimeRef (dispatch dec evs ?s1)"
    by blast
  from onmessage_step [OF m, of dec now s] show ?case
  proof
    assume same: "scheduled (playback ?s1) = scheduled (playback s) \<and>
      nextStartTimeRef s \<le> nextStartTimeRef ?s1"
    with ge have "list_all (\<lambda>x. nextStartTimeRef s \<le> fst x) new"
      by (auto simp: list_all_iff)
    with same new b so clock show ?thesis
      by (auto simp: ev)
  next
    assume "\<exists>t d. scheduled (playback ?s1) = scheduled (playback s) @ [(t, d)] \<and>
        nextStartTimeRef s \<le> t \<and> 0 \<le> d \<and> t + d \<le> nextStartTimeRef ?s1"
    then obtain t d where one: "scheduled (playback ?s1) = scheduled (playback s) @ [(t, d)]"
      and t: "nextStartTimeRef s \<le> t" and d: "0 \<le> d" and e: "t + d \<le> nextStartTimeRef ?s1"
      by blast
    from ge e have after_end: "list_all (\<lambda>x. t + d \<le> fst x) new"
      by (auto simp: list_all_iff)
    with d t have after_start: "\<forall>x \<in> set new. t \<le> fst x"
      and from_clock: "list_all (\<lambda>x. nextStartTimeRef s \<le> fst x) new"
      by (auto simp: list_all_iff)
    have "scheduled (playback (dispatch dec (ev # evs) s)) = scheduled (playback s) @ (t, d) # new"
      by (simp add: ev new one)
    moreover have "back_to_back ((t, d) # new)"
      by (rule back_to_back_Cons [OF after_end b])
    moreover have "sorted (map fst ((t, d) # new))"
      using so after_start by simp
    moreover have "list_all (\<lambda>x. nextStartTimeRef s \<le> fst x) ((t, d) # new)"
      using t from_clock by simp
    moreover have "nextStartTimeRef s \<le> nextStartTimeRef (dispatch dec (ev # evs) s)"
      using t d e clock by (simp add: ev)
    ultimately show ?thesis by blast
  qed
qed

lemma scheduled_since_no_interrupt:
  assumes "list_all notInterrupted evs"
  shows "back_to_back (scheduled_since s (dispatch dec evs s)) \<and>
     sorted (map fst (scheduled_since s (dispatch dec evs s))) \<and>
     list_all (\<lambda>x. nextStartTimeRef s \<le> fst x) (scheduled_since s (dispatch dec evs s))"
proof -
  from dispatch_no_interrupt [OF assms, of dec s] obtain new
    where "scheduled (playback (dispatch dec evs s)) = scheduled (playback s) @ new"
      and "back_to_back new" and "sorted (map fst new)"
      and "list_all (\<lambda>x. nextStartTimeRef s \<le> fst x) new"
    by blast
  then show ?thesis
    by (simp add: scheduled_since_def)
qed

text \<open>
  Claim C1. From a state with an audio context, for every sequence of audio chunks
  whose data is non-empty and decodes, the segments the handler starts are those of
  the specification's \<^verbatim>\<open>enqueue\<close>: each starts at \<open>max clock now\<close> and moves the clock
  to that start plus its duration. More generally, for every sequence of messages
  none of which carries \<^verbatim>\<open>interrupted\<close> (fragments, turn completions and audio may be
  mixed, and decoding may fail), the start times of the segments started during the
  run are non-decreasing, none is earlier than the clock at the beginning, and every
  segment starts no earlier than its predecessor's start plus duration.
\<close>

theorem enqueue_schedules_back_to_back:
  "(audioContextRef s \<noteq> None \<and> list_all (decodable dec) chunks \<longrightarrow>
      scheduled_since s (dispatch dec (chunkEvents chunks) s) =
        spec_enqueue_all (nextStartTimeRef s) (chunkDurations dec chunks) \<and>
      scheduled (playback (dispatch dec (chunkEvents chunks) s)) =
        scheduled (playback s) @ spec_enqueue_all (nextStartTimeRef s) (chunkDurations dec chunks) \<and>
      nextStartTimeRef (dispatch dec (chunkEvents chunks) s) =
        spec_clock_after (nextStartTimeRef s) (chunkDurations dec chunks)) \<and>
   (list_all notInterrupted evs \<longrightarrow>
      back_to_back (scheduled_since s (dispatch dec evs s)) \<and>
      sorted (map fst (scheduled_since s (dispatch dec evs s))) \<and>
      list_all (\<lambda>x. nextStartTimeRef s \<le> fst x) (scheduled_since s (dispatch dec evs s)))"
proof -
  have "scheduled_since s (dispatch dec (chunkEvents chunks) s) =
        spec_enqueue_all (nextStartTimeRef s) (chunkDurations dec chunks)"
    if "audioContextRef s \<noteq> None" and "list_all (decodable dec) chunks"
    using dispatch_chunks [OF that] by (simp add: scheduled_since_def)
  then show ?thesis
    using dispatch_chunks [of s dec chunks] scheduled_since_no_interrupt [of evs s dec]
    by blast
qed

theorem enqueue_schedules_back_to_back_witness:
  "scheduled_since demo_connected demo_midturn = [(0, 1 / 8000), (1, 1 / 4000)] \<and>
   back_to_back (scheduled_since demo_connected demo_midturn) \<and>
   sorted (map fst (scheduled_since demo_connected demo_midturn)) \<and>
   scheduled_since demo_midturn
     (dispatch demo_decodeAudioData
        (chunkEvents [(1, utf16 ''AAAAAAAA''), (3 / 2, utf16 ''AAAAAAAA'')]) demo_midturn) =
     [(4001 / 4000, 1 / 8000), (3 / 2, 1 / 8000)]"
proof -
  have ctx: "audioContextRef demo_midturn \<noteq> None"
    by (simp add: demo_midturn_eq)
  have dec: "list_all (decodable demo_decodeAudioData)
      [(1, utf16 ''AAAAAAAA''), (3 / 2, utf16 ''AAAAAAAA'')]"
    by (simp add: decodable_def demo_decodeAudioData_def utf16_def)
  have evs: "list_all notInterrupted
       [(0, transcriptFragment user (utf16 ''hi'')),
        (0, transcriptFragment model (utf16 ''Hel'')),
        (0, audioChunk (utf16 ''AAAAAAAA'')),
        (1, audioChunk (utf16 ''AAAAAAAAAAAAAAAA''))]"
    by (simp add: notInterrupted_def isInterrupted_def transcriptFragment_def audioChunk_def
        noContent_def)
  have since: "scheduled_since demo_connected demo_midturn = [(0, 1 / 8000), (1, 1 / 4000)]"
    by (simp add: scheduled_since_def demo_midturn_eq demo_connected_eq duration_def)
  have durs: "chunkDurations demo_decodeAudioData
      [(1, utf16 ''AAAAAAAA''), (3 / 2, utf16 ''AAAAAAAA'')] = [(1, 1 / 8000), (3 / 2, 1 / 8000)]"
    by (simp add: chunkDurations_def demo_decodeAudioData_def utf16_def duration_def)
  have clock: "nextStartTimeRef demo_midturn = 4001 / 4000"
    by (simp add: demo_midturn_eq)
  from enqueue_schedules_back_to_back
    [of demo_midturn demo_decodeAudioData
      "[(1, utf16 ''AAAAAAAA''), (3 / 2, utf16 ''AAAAAAAA'')]"
      "[(0, transcriptFragment user (utf16 ''hi'')),
        (0, transcriptFragment model (utf16 ''Hel'')),
        (0, audioChunk (utf16 ''AAAAAAAA'')),
        (1, audioChunk (utf16 ''AAAAAAAAAAAAAAAA''))]"]
    ctx dec
  have a: "scheduled_since demo_midturn
     (dispatch demo_decodeAudioData
        (chunkEvents [(1, utf16 ''AAAAAAAA''), (3 / 2, utf16 ''AAAAAAAA'')]) demo_midturn) =
     [(4001 / 4000, 1 / 8000), (3 / 2, 1 / 8000)]"
    by (simp add: durs clock spec_startTime_def)
  have b: "back_to_back (scheduled_since demo_connected demo_midturn) \<and>
   sorted (map fst (scheduled_since demo_connected demo_midturn))"
    unfolding demo_midturn_def
    using evs enqueue_schedules_back_to_back
      [of demo_connected demo_decodeAudioData "[]"
        "[(0, transcriptFragment user (utf16 ''hi'')),
          (0, transcriptFragment model (utf16 ''Hel'')),
          (0, audioChunk (utf16 ''AAAAAAAA'')),
          (1, audioChunk (utf16 ''AAAAAAAAAAAAAAAA''))]"]
    by blast
  from since a b show ?thesis by simp
qed

section \<open>Codec round trip\<close>

lemma le_int16_le_bytes: "le_int16 (ucast w) (ucast (drop_bit 8 w)) = w"
  apply (rule bit_word_eqI)
  apply (auto simp: le_int16_def bit_simps)
  done

lemma sint_in_range:
  "- 32768 \<le> k \<Longrightarrow> k \<le> 32767 \<Longrightarrow> sint (word_of_int k :: 16 word) = k"
  by (simp add: sint_sbintrunc' signed_take_bit_int_eq_self)

lemma round_half_away_close: "\<bar>real_of_int (round_half_away y) - y\<bar> \<le> 1 / 2"
proof (cases "0 \<le> y")
  case True
  then have "round_half_away y = round y"
    by (simp add: round_half_away_def round_def)
  with of_int_round_abs_le [of y] show ?thesis
    by simp
next
  case False
  then have "round_half_away y = - round (- y)"
    by (simp add: round_half_away_def round_def)
  moreover have "\<bar>real_of_int (round (- y)) - (- y)\<bar> \<le> 1 / 2"
    by (rule of_int_round_abs_le)
  ultimately show ?thesis
    by (simp add: abs_if split: if_splits)
qed

lemma round_half_away_mono: "x \<le> y \<Longrightarrow> round_half_away x \<le> round_half_away y"
  unfolding round_half_away_def
  by (auto intro!: floor_mono) linarith+

lemma round_half_away_of_int: "round_half_away (of_int k) = k"
  unfolding round_half_away_def by (auto; linarith)

lemma clamp_sample_range: "- 1 \<le> clamp_sample x \<and> clamp_sample x \<le> 1"
  by (simp add: clamp_sample_def)

lemma sint_quantize:
  "sint (quantize x) = max (- 32768) (min 32767 (round_half_away (clamp_sample x * 32768)))"
  unfolding quantize_def by (rule sint_in_range) simp_all

lemma quantize_close:
  "\<bar>real_of_int (sint (quantize x)) / 32768 - clamp_sample x\<bar> \<le> 1 / 32768"
proof -
  let ?y = "clamp_sample x * 32768"
  let ?r = "round_half_away ?y"
  have y: "- 32768 \<le> ?y" "?y \<le> 32768"
    using clamp_sample_range [of x] by simp_all
  have "round_half_away (of_int (- 32768)) \<le> ?r" "?r \<le> round_half_away (of_int 32768)"
    using y by (simp_all add: round_half_away_mono)
  then have r: "- 32768 \<le> ?r" "?r \<le> 32768"
    by (simp_all only: round_half_away_of_int)
  have close: "\<bar>real_of_int ?r - ?y\<bar> \<le> 1 / 2"
    by (rule round_half_away_close)
  have "\<bar>real_of_int (max (- 32768) (min 32767 ?r)) - ?y\<bar> \<le> 1"
  proof (cases "?r \<le> 32767")
    case True
    with r have "max (- 32768) (min 32767 ?r) = ?r" by simp
    with close show ?thesis by simp
  next
    case False
    with r have top: "?r = 32768" by simp
    then have "max (- 32768) (min 32767 ?r) = 32767" by simp
    moreover from close top y have "32767 \<le> ?y" "?y \<le> 32768" by simp_all
    ultimately show ?thesis by simp
  qed
  then have "\<bar>real_of_int (sint (quantize x)) - ?y\<bar> \<le> 1"
    by (simp only: sint_quantize)
  then have "\<bar>real_of_int (sint (quantize x)) - ?y\<bar> / 32768 \<le> 1 / 32768"
    by (simp add: divide_right_mono)
  moreover have "\<bar>real_of_int (sint (quantize x)) - ?y\<bar> / 32768 =
      \<bar>real_of_int (sint (quantize x)) / 32768 - clamp_sample x\<bar>"
    by (simp add: abs_if field_simps)
  ultimately show ?thesis by simp
qed

lemma decode_encode:
  "decode (encode samples) = map (\<lambda>x. real_of_int (sint (quantize x)) / 32768) samples"
  by (induction samples) (simp_all add: encode_def le_bytes_def le_int16_le_bytes)

lemma length_encode: "length (encode samples) = 2 * length samples"
  by (induction samples) (simp_all add: encode_def le_bytes_def)

lemma encode_silence: "encode (replicate n 0) = replicate (2 * n) 0"
  by (induction n)
    (simp_all add: encode_def le_bytes_def quantize_def clamp_sample_def round_half_away_def)

lemma decode_silence: "decode (replicate (2 * n) 0) = replicate n 0"
  by (induction n) (simp_all add: le_int16_def)

text \<open>
  Claim C4, on the codec as the specification describes it. For every buffer of
  samples, \<^verbatim>\<open>encode\<close> yields two bytes per sample, \<^verbatim>\<open>decode\<close> of them yields as many
  samples as went in, and each differs from the clamped input sample by at most
  1/32768.
\<close>

theorem round_trip_within_one_step:
  "length (encode samples) = 2 * length samples \<and>
   length (decode (encode samples)) = length samples \<and>
   list_all2 (\<lambda>y x. \<bar>y - clamp_sample x\<bar> \<le> 1 / 32768) (decode (encode samples)) samples"
  using quantize_close
  by (simp add: length_encode decode_encode list_all2_conv_all_nth)

theorem round_trip_within_one_step_witness:
  "decode (encode [1, - 1, 0, 3, 1 / 65536]) = [32767 / 32768, - 1, 0, 32767 / 32768, 1 / 32768] \<and>
   list_all2 (\<lambda>y x. \<bar>y - clamp_sample x\<bar> \<le> 1 / 32768)
     [32767 / 32768, - 1, 0, 32767 / 32768, 1 / 32768] [1, - 1, 0, 3, 1 / 65536]"
proof -
  have "decode (encode [1, - 1, 0, 3, 1 / 65536]) =
      [32767 / 32768, - 1, 0, 32767 / 32768, 1 / 32768]"
    by (simp add: decode_encode sint_quantize clamp_sample_def round_half_away_def)
  with round_trip_within_one_step [of "[1, - 1, 0, 3, 1 / 65536]"] show ?thesis
    by simp
qed

end
